theory Spec2Isabelle
  imports Main
begin

section \<open>Values that cross the library boundary\<close>

text \<open>
  The two components read decoded objects of the codec library. A codec object is
  modelled by what the code observes of it: the results of its \<open>toHex()\<close> and
  \<open>toString()\<close> methods. Names, types, hashes, signatures and argument values are all
  codec objects.
\<close>

record codec =
  toHex :: string
  toString :: string

text \<open>One entry of \<open>value.meta.args\<close>: the pair \<open>{ name, type }\<close>.\<close>

record fn_arg =
  arg_name :: codec
  arg_type :: codec

record fn_meta =
  meta_args :: "fn_arg list"

text \<open>
  What \<open>_raw.signature.multiSignature\<close> may hold: an instance of the library's
  \<open>Enum\<close> class, whose \<open>type\<close> getter is the variant tag, or any other value.
\<close>

datatype multisig = EnumInstance string | NotEnum

record raw_signature =
  multiSignature :: "multisig option"

record raw_extrinsic =
  raw_sig :: "raw_signature option"

text \<open>
  The \<open>value: IExtrinsic | IMethod\<close> argument. A property that the object does not have
  reads as \<open>undefined\<close> in the source; it is \<open>None\<close> here. A plain call has neither
  \<open>signature\<close> nor \<open>isSigned\<close> nor \<open>_raw\<close>. The \<open>registry\<close> handle is only passed
  through to the parameter widget and is left out.
\<close>

record call_value =
  value_meta :: fn_meta
  value_args :: "codec list"
  value_hash :: codec
  value_signature :: "codec option"
  value_isSigned :: "bool option"
  value_raw :: "raw_extrinsic option"

section \<open>Truthiness\<close>

text \<open>
  The conditions of the source test JavaScript truthiness. An optional flag is truthy
  only when it is \<open>true\<close>; a string is truthy when it is present and not empty.
\<close>

definition truthy_flag :: "bool option \<Rightarrow> bool" where
  "truthy_flag b = (case b of None \<Rightarrow> False | Some x \<Rightarrow> x)"

section \<open>The extrinsic call view: derived state\<close>

datatype widget = BalanceParam

type_synonym ComponentMap = "string \<rightharpoonup> widget"

record 'td Param =
  param_name :: string
  param_type :: 'td

record Value =
  isValid :: bool
  codec_value :: codec

record 'td Extracted =
  hash :: "string option"
  overrides :: "ComponentMap option"
  params :: "'td Param list"
  signature :: "string option"
  signatureType :: "string option"
  vals :: "Value list"

definition BALANCE_CALLS :: "string list" where
  "BALANCE_CALLS =
    [''balances.forceTransfer'', ''balances.forceUnreserve'', ''balances.setBalance'',
     ''balances.transfer'', ''balances.transferKeepAlive'',
     ''bounties.proposeBounty'', ''bounties.proposeCurator'',
     ''convictionVoting.delegate'',
     ''crowdloan.contribute'', ''crowdloan.create'', ''crowdloan.edit'',
     ''democracy.delegate'', ''democracy.propose'',
     ''nominationPools.bondExtra'', ''nominationPools.join'', ''nominationPools.unbond'',
     ''staking.bond'', ''staking.bondExtra'', ''staking.rebond'', ''staking.unbond'',
     ''treasury.proposeSpend'', ''treasury.spend'',
     ''vesting.forceVestedTransfer'', ''vesting.vestedTransfer'']"

definition BALANCE_OVERRIDE :: ComponentMap where
  "BALANCE_OVERRIDE = [''Compact<u128>'' \<mapsto> BalanceParam]"

definition isExtrinsic :: "call_value \<Rightarrow> bool" where
  "isExtrinsic v = (value_signature v \<noteq> None)"

definition getRawSignature :: "call_value \<Rightarrow> multisig option" where
  "getRawSignature v =
    (case value_raw v of
       None \<Rightarrow> None
     | Some r \<Rightarrow> (case raw_sig r of None \<Rightarrow> None | Some s \<Rightarrow> multiSignature s))"

text \<open>
  \<open>Array.prototype.map\<close> with a callback that may throw: the first exception leaves the
  loop, and no list is produced.
\<close>

fun map_throwing :: "('a \<Rightarrow> 'b option) \<Rightarrow> 'a list \<Rightarrow> 'b list option" where
  "map_throwing f [] = Some []"
| "map_throwing f (x # xs) =
    (case f x of
       None \<Rightarrow> None
     | Some y \<Rightarrow> (case map_throwing f xs of None \<Rightarrow> None | Some ys \<Rightarrow> Some (y # ys)))"

text \<open>
  \<open>getTypeDef\<close> is the library's parser of type strings. It is a parameter of the model;
  \<open>None\<close> stands for the exception it throws on a string it cannot parse, which
  \<open>extractState\<close> does not catch.
\<close>

definition toParam :: "(string \<Rightarrow> 'td option) \<Rightarrow> fn_arg \<Rightarrow> 'td Param option" where
  "toParam getTypeDef a =
    (case getTypeDef (toString (arg_type a)) of
       None \<Rightarrow> None
     | Some td \<Rightarrow> Some \<lparr>param_name = toString (arg_name a), param_type = td\<rparr>)"

definition toValue :: "codec \<Rightarrow> Value" where
  "toValue c = \<lparr>isValid = True, codec_value = c\<rparr>"

text \<open>
  The derived display structure. The guard \<open>isExtrinsic value\<close> is what makes
  \<open>value.signature.toHex()\<close> safe in the source; a read of \<open>toHex\<close> on an absent
  signature would be a \<open>TypeError\<close>, which is the \<open>None\<close> of that branch.
\<close>

definition extractState ::
  "(string \<Rightarrow> 'td option) \<Rightarrow> call_value \<Rightarrow> bool option \<Rightarrow> bool option \<Rightarrow> string option
    \<Rightarrow> 'td Extracted option" where
  "extractState getTypeDef v withHash withSignature callName =
    (let ov = (case callName of
                 None \<Rightarrow> None
               | Some n \<Rightarrow> if n \<noteq> [] \<and> List.member BALANCE_CALLS n
                          then Some BALANCE_OVERRIDE else None)
     in case map_throwing (toParam getTypeDef) (meta_args (value_meta v)) of
          None \<Rightarrow> None
        | Some ps \<Rightarrow>
            (let vs = map toValue (value_args v);
                 h = (if truthy_flag withHash then Some (toHex (value_hash v)) else None)
             in if truthy_flag withSignature \<and> isExtrinsic v \<and> truthy_flag (value_isSigned v)
                then (case value_signature v of
                        None \<Rightarrow> None
                      | Some s \<Rightarrow>
                          Some \<lparr>hash = h, overrides = ov, params = ps,
                                signature = Some (toHex s),
                                signatureType = (case getRawSignature v of
                                                   Some (EnumInstance tag) \<Rightarrow> Some tag
                                                 | _ \<Rightarrow> None),
                                vals = vs\<rparr>)
                else Some \<lparr>hash = h, overrides = ov, params = ps, signature = None,
                           signatureType = None, vals = vs\<rparr>))"

section \<open>The extrinsic call view: component\<close>

text \<open>
  A \<open>React.ReactNode\<close>: the primitive nodes, an element supplied by the caller, or the
  balance formatter element \<open><FormatBalance value={n} />\<close> that the view builds itself.
\<close>

datatype 'e node =
  NUndefined | NNull | NBool bool | NText string | NNumber int | NElement 'e
  | FormatBalance int

fun truthy_node :: "'e node \<Rightarrow> bool" where
  "truthy_node NUndefined = False"
| "truthy_node NNull = False"
| "truthy_node (NBool b) = b"
| "truthy_node (NText s) = (s \<noteq> [])"
| "truthy_node (NNumber n) = (n \<noteq> 0)"
| "truthy_node (NElement e) = True"
| "truthy_node (FormatBalance n) = True"

text \<open>
  The props of \<open>Call\<close>. The tip is a big integer (\<open>BN\<close>), hence an \<open>int\<close>. The
  \<open>onError\<close> callback is only handed on to the parameter widget and is left out.
\<close>

record 'e Props =
  callName :: "string option"
  children :: "'e node"
  className :: "string option"
  labelHash :: "'e node"
  labelSignature :: "'e node"
  mortality :: "string option"
  noIndent :: "bool option"
  tip :: "int option"
  prop_value :: call_value
  withBorder :: "bool option"
  withHash :: "bool option"
  withSignature :: "bool option"

text \<open>The state that \<open>useState\<close> starts with.\<close>

definition Call_initial :: "'td Extracted" where
  "Call_initial =
    \<lparr>hash = None, overrides = None, params = [], signature = None, signatureType = None,
     vals = []\<rparr>"

text \<open>
  The effect of \<open>Call\<close>: its body computes the next derived state from four of the props,
  and its dependency array lists the same four.
\<close>

definition Call_deps ::
  "'e Props \<Rightarrow> string option \<times> call_value \<times> bool option \<times> bool option" where
  "Call_deps p = (callName p, prop_value p, withHash p, withSignature p)"

definition Call_effect :: "(string \<Rightarrow> 'td option) \<Rightarrow> 'e Props \<Rightarrow> 'td Extracted option" where
  "Call_effect getTypeDef p =
    extractState getTypeDef (prop_value p) (withHash p) (withSignature p) (callName p)"

text \<open>What \<open>Call\<close> renders: the props of the parameter widget and the read-only rows.\<close>

record 'e Static =
  static_className :: string
  static_label :: "'e node"
  static_value :: "'e node"
  withCopy :: bool

record 'td Params_props =
  isDisabled :: bool
  params_overrides :: "ComponentMap option"
  params_params :: "'td Param list"
  params_values :: "Value list"
  params_withBorder :: "bool option"

record ('e, 'td) Call_view =
  view_className :: string
  view_params :: "'td Params_props"
  view_children :: "'e node"
  toplevel_className :: string
  toplevel :: "'e Static list"

text \<open>
  The translation function \<open>t\<close> of the localisation layer takes a key and the
  replacements of its placeholders. A child \<open>{c && <Static ... />}\<close> is a row when \<open>c\<close> is
  truthy and renders nothing otherwise.
\<close>

definition signature_row ::
  "(string \<Rightarrow> (string \<times> string) list \<Rightarrow> string) \<Rightarrow> 'e Props \<Rightarrow> 'td Extracted \<Rightarrow> 'e Static list" where
  "signature_row t p st =
    (case signature st of
       None \<Rightarrow> []
     | Some sg \<Rightarrow>
         if sg = [] then []
         else [\<lparr>static_className = ''hash'',
                static_label =
                  (if truthy_node (labelSignature p) then labelSignature p
                   else NText (t ''signature {{type}}''
                     [(''type'', (case signatureType st of
                                    None \<Rightarrow> []
                                  | Some ty \<Rightarrow> if ty = [] then [] else ''('' @ ty @ '')''))])),
                static_value = NText sg,
                withCopy = True\<rparr>])"

definition hash_row ::
  "(string \<Rightarrow> (string \<times> string) list \<Rightarrow> string) \<Rightarrow> 'e Props \<Rightarrow> 'td Extracted \<Rightarrow> 'e Static list" where
  "hash_row t p st =
    (case hash st of
       None \<Rightarrow> []
     | Some h \<Rightarrow>
         if h = [] then []
         else [\<lparr>static_className = ''hash'',
                static_label =
                  (if truthy_node (labelHash p) then labelHash p
                   else NText (t ''extrinsic hash'' [])),
                static_value = NText h,
                withCopy = True\<rparr>])"

definition mortality_row ::
  "(string \<Rightarrow> (string \<times> string) list \<Rightarrow> string) \<Rightarrow> 'e Props \<Rightarrow> 'e Static list" where
  "mortality_row t p =
    (case mortality p of
       None \<Rightarrow> []
     | Some m \<Rightarrow>
         if m = [] then []
         else [\<lparr>static_className = ''mortality'',
                static_label = NText (t ''lifetime'' []),
                static_value = NText m,
                withCopy = False\<rparr>])"

definition tip_row ::
  "(string \<Rightarrow> (string \<times> string) list \<Rightarrow> string) \<Rightarrow> 'e Props \<Rightarrow> 'e Static list" where
  "tip_row t p =
    (case tip p of
       None \<Rightarrow> []
     | Some n \<Rightarrow>
         if n > 0
         then [\<lparr>static_className = ''tip'',
                static_label = NText (t ''tip'' []),
                static_value = FormatBalance n,
                withCopy = False\<rparr>]
         else [])"

definition Call ::
  "(string \<Rightarrow> (string \<times> string) list \<Rightarrow> string) \<Rightarrow> 'e Props \<Rightarrow> 'td Extracted
    \<Rightarrow> ('e, 'td) Call_view" where
  "Call t p st =
    \<lparr>view_className =
       ''ui--Extrinsic '' @ (case className p of None \<Rightarrow> [] | Some c \<Rightarrow> c),
     view_params =
       \<lparr>isDisabled = True, params_overrides = overrides st, params_params = params st,
        params_values = vals st, params_withBorder = withBorder p\<rparr>,
     view_children = children p,
     toplevel_className =
       ''ui--Extrinsic--toplevel'' @ (if truthy_flag (noIndent p) then '' noIndent'' else []),
     toplevel = signature_row t p st @ hash_row t p st @ mortality_row t p @ tip_row t p\<rparr>"

section \<open>The members list view\<close>

text \<open>
  Modelled from the spec: the member record, whose declaration (\<open>./types\<close>) is not among
  the sources. The spec describes it as an opaque record with an account identifier,
  used as the list key, and further data of the member.
\<close>

record 'i Member =
  accountId :: string
  member_info :: 'i

text \<open>The element \<open><Member key={a.accountId} value={a} />\<close>.\<close>

record 'i Member_element =
  key :: string
  member_value :: "'i Member"

record 'i Table_props =
  table_className :: "string option"
  table_empty :: "string option"
  table_header :: "string list list"
  table_children :: "'i Member_element list option"

text \<open>
  \<open>useRef\<close> keeps the header computed at the first render; \<open>headerRef\<close> below is the
  current content of that reference, which starts as \<open>headerRef_init t\<close>.
\<close>

definition headerRef_init :: "(string \<Rightarrow> (string \<times> string) list \<Rightarrow> string) \<Rightarrow> string list list" where
  "headerRef_init t = [[t ''members'' [], ''start''], [t ''rank'' [], ''number'']]"

definition toMemberElement :: "'i Member \<Rightarrow> 'i Member_element" where
  "toMemberElement a = \<lparr>key = accountId a, member_value = a\<rparr>"

definition Members ::
  "(string \<Rightarrow> (string \<times> string) list \<Rightarrow> string) \<Rightarrow> string list list \<Rightarrow> string option
    \<Rightarrow> 'i Member list option \<Rightarrow> 'i Table_props" where
  "Members t headerRef cls members =
    \<lparr>table_className = cls,
     table_empty = (case members of None \<Rightarrow> None | Some ms \<Rightarrow> Some (t ''No members found'' [])),
     table_header = headerRef,
     table_children = (case members of None \<Rightarrow> None | Some ms \<Rightarrow> Some (map toMemberElement ms))\<rparr>"

section \<open>Example inputs\<close>

text \<open>
  Concrete inputs on which the theorems below are evaluated: a translation function that
  returns its key, a \<open>balances.transfer\<close> call with a \<open>Compact<u128>\<close> argument, a
  \<open>system.remark\<close> call without one, the transfer as a signed extrinsic (with two tagged
  envelopes, with an untagged one and without \<open>_raw\<close>) and as an unsigned extrinsic
  that still has a \<open>signature\<close> accessor, two sets of props that differ only in labels,
  mortality and tip, and three members.
\<close>

definition t_key :: "string \<Rightarrow> (string \<times> string) list \<Rightarrow> string" where
  "t_key k rs = k"

definition text_codec :: "string \<Rightarrow> codec" where
  "text_codec s = \<lparr>toHex = ''0x'', toString = s\<rparr>"

definition example_transfer :: call_value where
  "example_transfer =
    \<lparr>value_meta = \<lparr>meta_args =
       [\<lparr>arg_name = text_codec ''dest'', arg_type = text_codec ''MultiAddress''\<rparr>,
        \<lparr>arg_name = text_codec ''value'', arg_type = text_codec ''Compact<u128>''\<rparr>]\<rparr>,
     value_args = [\<lparr>toHex = ''0x00d4'', toString = ''5Grw''\<rparr>,
                   \<lparr>toHex = ''0x0284'', toString = ''100''\<rparr>],
     value_hash = \<lparr>toHex = ''0xabcd'', toString = ''0xabcd''\<rparr>,
     value_signature = None, value_isSigned = None, value_raw = None\<rparr>"

definition example_remark :: call_value where
  "example_remark =
    \<lparr>value_meta = \<lparr>meta_args =
       [\<lparr>arg_name = text_codec ''remark'', arg_type = text_codec ''Bytes''\<rparr>]\<rparr>,
     value_args = [\<lparr>toHex = ''0x6869'', toString = ''hi''\<rparr>],
     value_hash = \<lparr>toHex = ''0x1234'', toString = ''0x1234''\<rparr>,
     value_signature = None, value_isSigned = None, value_raw = None\<rparr>"

definition example_signed :: call_value where
  "example_signed =
    example_transfer
      \<lparr>value_signature := Some \<lparr>toHex = ''0x01ff'', toString = ''0x01ff''\<rparr>,
       value_isSigned := Some True,
       value_raw := Some \<lparr>raw_sig = Some \<lparr>multiSignature = Some (EnumInstance ''Sr25519'')\<rparr>\<rparr>\<rparr>"

definition example_signed_plain :: call_value where
  "example_signed_plain =
    example_signed\<lparr>value_raw := Some \<lparr>raw_sig = Some \<lparr>multiSignature = Some NotEnum\<rparr>\<rparr>\<rparr>"

definition example_signed_ed :: call_value where
  "example_signed_ed =
    example_signed\<lparr>value_raw := Some \<lparr>raw_sig = Some \<lparr>multiSignature = Some (EnumInstance ''Ed25519'')\<rparr>\<rparr>\<rparr>"

definition example_signed_no_raw :: call_value where
  "example_signed_no_raw = example_signed\<lparr>value_raw := None\<rparr>"

definition example_unsigned :: call_value where
  "example_unsigned = example_signed\<lparr>value_isSigned := Some False\<rparr>"

definition example_props :: "unit Props" where
  "example_props =
    \<lparr>callName = Some ''balances.transfer'', children = NUndefined, className = None,
     labelHash = NUndefined, labelSignature = NUndefined, mortality = None, noIndent = None,
     tip = None, prop_value = example_signed, withBorder = None, withHash = Some True,
     withSignature = Some True\<rparr>"

definition example_props_cosmetic :: "unit Props" where
  "example_props_cosmetic =
    example_props
      \<lparr>labelHash := NText ''block hash'', labelSignature := NText ''signed by'',
       mortality := Some ''mortal, valid for 64 blocks'', tip := Some 5\<rparr>"

definition example_members :: "nat Member list" where
  "example_members =
    [\<lparr>accountId = ''5Grw'', member_info = 3\<rparr>,
     \<lparr>accountId = ''5FHn'', member_info = 1\<rparr>,
     \<lparr>accountId = ''5DAA'', member_info = 3\<rparr>]"

section \<open>Properties of the derived state\<close>

text \<open>
  \<open>map_throwing\<close> returns a list exactly when the callback succeeds on every element, and
  then the result is the pointwise image.
\<close>

lemma map_throwing_Some:
  "map_throwing f xs = Some ys \<longleftrightarrow> map f xs = map Some ys"
proof (induction xs arbitrary: ys)
  case Nil
  then show ?case by auto
next
  case (Cons x xs)
  show ?case
  proof (cases ys)
    case Nil
    then show ?thesis by (simp split: option.splits)
  next
    case (Cons y ys')
    then show ?thesis using Cons.IH [of ys'] by (auto split: option.splits)
  qed
qed

lemma map_throwing_nth:
  assumes "map_throwing f xs = Some ys"
  shows "length ys = length xs" and "i < length xs \<Longrightarrow> f (xs ! i) = Some (ys ! i)"
proof -
  from assms have eq: "map f xs = map Some ys" by (simp add: map_throwing_Some)
  then show len: "length ys = length xs" by (metis length_map)
  assume "i < length xs"
  with eq len show "f (xs ! i) = Some (ys ! i)" by (metis nth_map)
qed

lemma map_throwing_returns:
  "(\<exists>ys. map_throwing f xs = Some ys) \<longleftrightarrow> (\<forall>x\<in>set xs. f x \<noteq> None)"
  by (induction xs) (auto split: option.splits)

text \<open>
  A list of known length, written out by index.
\<close>

lemma list_of_length_2:
  assumes "length xs = 2"
  shows "xs = [xs ! 0, xs ! 1]"
proof -
  from assms obtain a b where "xs = [a, b]"
    by (auto simp: length_Suc_conv numeral_2_eq_2)
  then show ?thesis by simp
qed

lemma list_of_length_3:
  assumes "length xs = 3"
  shows "xs = [xs ! 0, xs ! 1, xs ! 2]"
proof -
  from assms obtain a b c where "xs = [a, b, c]"
    by (auto simp: length_Suc_conv numeral_3_eq_3)
  then show ?thesis by simp
qed

text \<open>
  Of the four read-only rows, only the tip row has the class \<open>tip\<close>.
\<close>

lemma signature_row_not_tip:
  "filter (\<lambda>row. static_className row = ''tip'') (signature_row t p st) = []"
  by (simp add: signature_row_def split: option.splits)

lemma hash_row_not_tip:
  "filter (\<lambda>row. static_className row = ''tip'') (hash_row t p st) = []"
  by (simp add: hash_row_def split: option.splits)

lemma mortality_row_not_tip:
  "filter (\<lambda>row. static_className row = ''tip'') (mortality_row t p) = []"
  by (simp add: mortality_row_def split: option.splits)

lemma tip_row_is_tip:
  "filter (\<lambda>row. static_className row = ''tip'') (tip_row t p) = tip_row t p"
  by (simp add: tip_row_def split: option.splits)

lemma toplevel_tip_rows:
  "filter (\<lambda>row. static_className row = ''tip'') (toplevel (Call t p st)) = tip_row t p"
  by (simp add: Call_def signature_row_not_tip hash_row_not_tip mortality_row_not_tip
      tip_row_is_tip)

lemma tip_row_positive:
  "tip p = Some n \<Longrightarrow> 0 < n \<Longrightarrow>
   tip_row t p = [\<lparr>static_className = ''tip'', static_label = NText (t ''tip'' []),
                   static_value = FormatBalance n, withCopy = False\<rparr>]"
  by (simp add: tip_row_def)

lemma tip_row_suppressed:
  "tip_row t p = [] \<longleftrightarrow> \<not> (\<exists>n. tip p = Some n \<and> 0 < n)"
  by (simp add: tip_row_def split: option.splits)

text \<open>
  The override table has the single entry \<open>Compact<u128>\<close>.
\<close>

lemma BALANCE_OVERRIDE_entry:
  "BALANCE_OVERRIDE ''Compact<u128>'' = Some BalanceParam"
  by (simp add: BALANCE_OVERRIDE_def)

lemma BALANCE_OVERRIDE_dom:
  "dom BALANCE_OVERRIDE = {''Compact<u128>''}"
  unfolding BALANCE_OVERRIDE_def by simp

text \<open>
  The fields of the structure that \<open>extractState\<close> returns, and when it returns: exactly
  when \<open>getTypeDef\<close> parses the type of every declared argument.
\<close>

lemma toParam_Some:
  assumes "toParam g a = Some p"
  shows "param_name p = toString (arg_name a) \<and> g (toString (arg_type a)) = Some (param_type p)"
  using assms by (auto simp: toParam_def split: option.splits)

lemma empty_not_balance_call: "\<not> List.member BALANCE_CALLS []"
  by (simp add: BALANCE_CALLS_def)

lemma extractState_fields:
  assumes "extractState g v wh ws cn = Some r"
  shows "map_throwing (toParam g) (meta_args (value_meta v)) = Some (params r)"
    and "vals r = map toValue (value_args v)"
    and "hash r = (if truthy_flag wh then Some (toHex (value_hash v)) else None)"
    and "overrides r = (case cn of None \<Rightarrow> None
           | Some n \<Rightarrow> if List.member BALANCE_CALLS n then Some BALANCE_OVERRIDE else None)"
  using assms empty_not_balance_call
  by (auto simp: extractState_def Let_def split: option.splits if_splits)

lemma extractState_signature_fields:
  assumes "extractState g v wh ws cn = Some r"
  shows "signature r =
           (if truthy_flag ws \<and> truthy_flag (value_isSigned v)
            then map_option toHex (value_signature v) else None)"
    and "signatureType r =
           (if truthy_flag ws \<and> truthy_flag (value_isSigned v) \<and> value_signature v \<noteq> None
            then (case getRawSignature v of Some (EnumInstance tag) \<Rightarrow> Some tag | _ \<Rightarrow> None)
            else None)"
  using assms
  by (auto simp: extractState_def Let_def isExtrinsic_def split: option.splits if_splits)

lemma extractState_returns:
  "(\<exists>r. extractState g v wh ws cn = Some r) \<longleftrightarrow>
   (\<forall>a\<in>set (meta_args (value_meta v)). g (toString (arg_type a)) \<noteq> None)"
proof -
  have "(\<exists>r. extractState g v wh ws cn = Some r) \<longleftrightarrow>
        (\<exists>ps. map_throwing (toParam g) (meta_args (value_meta v)) = Some ps)"
    by (auto simp: extractState_def Let_def isExtrinsic_def split: option.splits if_splits)
  also have "\<dots> \<longleftrightarrow> (\<forall>a\<in>set (meta_args (value_meta v)). toParam g a \<noteq> None)"
    by (rule map_throwing_returns)
  also have "\<dots> \<longleftrightarrow> (\<forall>a\<in>set (meta_args (value_meta v)). g (toString (arg_type a)) \<noteq> None)"
    by (auto simp: toParam_def split: option.splits)
  finally show ?thesis .
qed

section \<open>The claims\<close>

text \<open>
  C1. When the call name is in the allow-list of balance calls and the call declares a
  \<open>Compact<u128>\<close> argument, the override map that \<open>extractState\<close> returns has an entry
  for \<open>Compact<u128>\<close>. When the call name is absent or not in the allow-list, the override
  map is absent, whatever the argument types are.
\<close>

theorem extractState_overrides_allow_list:
  "(extractState g v wh ws (Some n) = Some r \<and> List.member BALANCE_CALLS n \<and>
      (\<exists>a\<in>set (meta_args (value_meta v)). toString (arg_type a) = ''Compact<u128>'')
      \<longrightarrow> (\<exists>m. overrides r = Some m \<and> m ''Compact<u128>'' = Some BalanceParam)) \<and>
   (extractState g v wh ws cn = Some r' \<and>
      (cn = None \<or> (\<exists>k. cn = Some k \<and> \<not> List.member BALANCE_CALLS k))
      \<longrightarrow> overrides r' = None)"
proof (intro conjI impI)
  assume a: "extractState g v wh ws (Some n) = Some r \<and> List.member BALANCE_CALLS n \<and>
      (\<exists>a\<in>set (meta_args (value_meta v)). toString (arg_type a) = ''Compact<u128>'')"
  then have "overrides r = Some BALANCE_OVERRIDE"
    using extractState_fields(4) [of g v wh ws "Some n" r] by simp
  then show "\<exists>m. overrides r = Some m \<and> m ''Compact<u128>'' = Some BalanceParam"
    by (simp add: BALANCE_OVERRIDE_def)
next
  assume b: "extractState g v wh ws cn = Some r' \<and>
      (cn = None \<or> (\<exists>k. cn = Some k \<and> \<not> List.member BALANCE_CALLS k))"
  then show "overrides r' = None"
    using extractState_fields(4) [of g v wh ws cn r'] by auto
qed

theorem extractState_overrides_allow_list_witness:
  "map_option (\<lambda>r. map_option (\<lambda>m. m ''Compact<u128>'') (overrides r))
     (extractState Some example_transfer None None (Some ''balances.transfer''))
     = Some (Some (Some BalanceParam)) \<and>
   map_option overrides (extractState Some example_transfer None None (Some ''system.remark''))
     = Some None \<and>
   map_option overrides (extractState Some example_transfer None None None) = Some None"
proof -
  let ?n = "''balances.transfer''"
  obtain r :: "string Extracted"
    where r: "extractState Some example_transfer None None (Some ?n) = Some r"
    using extractState_returns [of Some example_transfer None None "Some ?n"] by auto
  obtain r1 :: "string Extracted"
    where r1: "extractState Some example_transfer None None (Some ''system.remark'') = Some r1"
    using extractState_returns [of Some example_transfer None None "Some ''system.remark''"]
    by auto
  obtain r2 :: "string Extracted"
    where r2: "extractState Some example_transfer None None None = Some r2"
    using extractState_returns [of Some example_transfer None None None] by auto
  have m: "List.member BALANCE_CALLS ?n"
    by (simp add: BALANCE_CALLS_def)
  have c: "\<exists>a\<in>set (meta_args (value_meta example_transfer)).
             toString (arg_type a) = ''Compact<u128>''"
    by (simp add: example_transfer_def text_codec_def)
  have m1: "\<not> List.member BALANCE_CALLS ''system.remark''"
    by (simp add: BALANCE_CALLS_def)
  have "\<exists>m. overrides r = Some m \<and> m ''Compact<u128>'' = Some BalanceParam"
    using extractState_overrides_allow_list
      [of Some example_transfer None None ?n r None r2] r m c by blast
  moreover have "overrides r1 = None"
    using extractState_overrides_allow_list
      [of Some example_transfer None None ?n r "Some ''system.remark''" r1] r1 m1 by blast
  moreover have "overrides r2 = None"
    using extractState_overrides_allow_list
      [of Some example_transfer None None ?n r None r2] r2 by blast
  ultimately show ?thesis using r r1 r2 by auto
qed

text \<open>
  C2. For a signed extrinsic and \<open>withSignature = true\<close>, the signature field is the hex
  encoding of the signature value of the extrinsic. The signatureType field is the variant
  tag of the raw multi-signature envelope, the \<open>multiSignature\<close> of the \<open>signature\<close> of the
  \<open>_raw\<close> field of the extrinsic, when that envelope is an \<open>Enum\<close> instance. It is null in
  every other case: no \<open>_raw\<close>, no \<open>signature\<close> in it, no \<open>multiSignature\<close> in that, or an
  envelope that is not an \<open>Enum\<close> instance.
\<close>

theorem extractState_signature_signed:
  assumes "value_signature v = Some s" and "value_isSigned v = Some True"
    and "extractState g v wh (Some True) cn = Some r"
  shows "signature r = Some (toHex s) \<and>
         (\<forall>raw sg tag.
            value_raw v = Some raw \<and> raw_sig raw = Some sg \<and>
            multiSignature sg = Some (EnumInstance tag)
            \<longrightarrow> signatureType r = Some tag) \<and>
         (value_raw v = None \<or>
          (\<exists>raw. value_raw v = Some raw \<and>
             (raw_sig raw = None \<or>
              (\<exists>sg. raw_sig raw = Some sg \<and>
                 (multiSignature sg = None \<or> multiSignature sg = Some NotEnum))))
            \<longrightarrow> signatureType r = None)"
proof -
  have sg: "signature r = Some (toHex s)"
    using extractState_signature_fields(1) [OF assms(3)] assms(1,2)
    by (simp add: truthy_flag_def)
  have ty: "signatureType r =
              (case getRawSignature v of Some (EnumInstance tag) \<Rightarrow> Some tag | _ \<Rightarrow> None)"
    using extractState_signature_fields(2) [OF assms(3)] assms(1,2)
    by (simp add: truthy_flag_def)
  have tagged: "signatureType r = Some tag"
    if "value_raw v = Some raw \<and> raw_sig raw = Some sg \<and>
        multiSignature sg = Some (EnumInstance tag)" for raw sg tag
    using that by (simp add: ty getRawSignature_def)
  have other: "signatureType r = None"
    if "value_raw v = None \<or>
        (\<exists>raw. value_raw v = Some raw \<and>
           (raw_sig raw = None \<or>
            (\<exists>sg. raw_sig raw = Some sg \<and>
               (multiSignature sg = None \<or> multiSignature sg = Some NotEnum))))"
    using that by (auto simp: ty getRawSignature_def)
  from sg tagged other show ?thesis by blast
qed

theorem extractState_signature_signed_witness:
  "map_option (\<lambda>r. (signature r, signatureType r))
     (extractState Some example_signed None (Some True) None)
     = Some (Some ''0x01ff'', Some ''Sr25519'') \<and>
   map_option (\<lambda>r. (signature r, signatureType r))
     (extractState Some example_signed_ed None (Some True) None)
     = Some (Some ''0x01ff'', Some ''Ed25519'') \<and>
   map_option (\<lambda>r. (signature r, signatureType r))
     (extractState Some example_signed_plain None (Some True) None)
     = Some (Some ''0x01ff'', None) \<and>
   map_option (\<lambda>r. (signature r, signatureType r))
     (extractState Some example_signed_no_raw None (Some True) None)
     = Some (Some ''0x01ff'', None)"
proof -
  let ?s = "\<lparr>toHex = ''0x01ff'', toString = ''0x01ff''\<rparr>"
  obtain r :: "string Extracted"
    where r: "extractState Some example_signed None (Some True) None = Some r"
    using extractState_returns [of Some example_signed None "Some True" None] by auto
  obtain r1 :: "string Extracted"
    where r1: "extractState Some example_signed_ed None (Some True) None = Some r1"
    using extractState_returns [of Some example_signed_ed None "Some True" None] by auto
  obtain r2 :: "string Extracted"
    where r2: "extractState Some example_signed_plain None (Some True) None = Some r2"
    using extractState_returns [of Some example_signed_plain None "Some True" None] by auto
  obtain r3 :: "string Extracted"
    where r3: "extractState Some example_signed_no_raw None (Some True) None = Some r3"
    using extractState_returns [of Some example_signed_no_raw None "Some True" None] by auto
  have s: "value_signature example_signed = Some ?s" "value_isSigned example_signed = Some True"
    by (simp_all add: example_signed_def)
  have s1: "value_signature example_signed_ed = Some ?s"
    "value_isSigned example_signed_ed = Some True"
    by (simp_all add: example_signed_ed_def example_signed_def)
  have s2: "value_signature example_signed_plain = Some ?s"
    "value_isSigned example_signed_plain = Some True"
    by (simp_all add: example_signed_plain_def example_signed_def)
  have s3: "value_signature example_signed_no_raw = Some ?s"
    "value_isSigned example_signed_no_raw = Some True"
    by (simp_all add: example_signed_no_raw_def example_signed_def)
  have e: "value_raw example_signed
             = Some \<lparr>raw_sig = Some \<lparr>multiSignature = Some (EnumInstance ''Sr25519'')\<rparr>\<rparr>"
    by (simp add: example_signed_def)
  have e1: "value_raw example_signed_ed
              = Some \<lparr>raw_sig = Some \<lparr>multiSignature = Some (EnumInstance ''Ed25519'')\<rparr>\<rparr>"
    by (simp add: example_signed_ed_def)
  have e2: "value_raw example_signed_plain
              = Some \<lparr>raw_sig = Some \<lparr>multiSignature = Some NotEnum\<rparr>\<rparr>"
    by (simp add: example_signed_plain_def)
  have e3: "value_raw example_signed_no_raw = None"
    by (simp add: example_signed_no_raw_def)
  have "signature r = Some ''0x01ff'' \<and> signatureType r = Some ''Sr25519''"
    using extractState_signature_signed [OF s r] e by simp
  moreover have "signature r1 = Some ''0x01ff'' \<and> signatureType r1 = Some ''Ed25519''"
    using extractState_signature_signed [OF s1 r1] e1 by simp
  moreover have "signature r2 = Some ''0x01ff'' \<and> signatureType r2 = None"
    using extractState_signature_signed [OF s2 r2] e2 by simp
  moreover have "signature r3 = Some ''0x01ff'' \<and> signatureType r3 = None"
    using extractState_signature_signed [OF s3 r3] e3 by simp
  ultimately show ?thesis using r r1 r2 r3 by simp
qed

text \<open>
  C4. For an unsigned call or an unsigned extrinsic and \<open>withSignature = true\<close>, both the
  signature and the signatureType field are null, also when the object has a
  \<open>signature\<close> accessor: the \<open>isSigned\<close> test guards the extraction.
\<close>

theorem extractState_signature_unsigned:
  assumes "value_signature v = None \<or> \<not> truthy_flag (value_isSigned v)"
    and "extractState g v wh (Some True) cn = Some r"
  shows "signature r = None \<and> signatureType r = None"
  using extractState_signature_fields [OF assms(2)] assms(1) by auto

theorem extractState_signature_unsigned_witness:
  "value_signature example_unsigned \<noteq> None \<and>
   map_option (\<lambda>r. (signature r, signatureType r))
     (extractState Some example_unsigned None (Some True) None) = Some (None, None) \<and>
   map_option (\<lambda>r. (signature r, signatureType r))
     (extractState Some example_transfer None (Some True) None) = Some (None, None)"
proof -
  obtain r :: "string Extracted"
    where r: "extractState Some example_unsigned None (Some True) None = Some r"
    using extractState_returns [of Some example_unsigned None "Some True" None] by auto
  obtain r1 :: "string Extracted"
    where r1: "extractState Some example_transfer None (Some True) None = Some r1"
    using extractState_returns [of Some example_transfer None "Some True" None] by auto
  have u: "value_signature example_unsigned \<noteq> None"
    "value_signature example_unsigned = None \<or> \<not> truthy_flag (value_isSigned example_unsigned)"
    by (simp_all add: example_unsigned_def example_signed_def truthy_flag_def)
  have u1: "value_signature example_transfer = None
              \<or> \<not> truthy_flag (value_isSigned example_transfer)"
    by (simp add: example_transfer_def)
  have "signature r = None \<and> signatureType r = None"
    using extractState_signature_unsigned [OF u(2) r] .
  moreover have "signature r1 = None \<and> signatureType r1 = None"
    using extractState_signature_unsigned [OF u1 r1] .
  ultimately show ?thesis using r r1 u(1) by simp
qed

text \<open>
  C5. The hash field is null when \<open>withHash\<close> is false (or absent), and the hex encoding
  of the content hash of the value when \<open>withHash\<close> is true.
\<close>

theorem extractState_hash:
  assumes "extractState g v wh ws cn = Some r"
  shows "(wh \<noteq> Some True \<longrightarrow> hash r = None) \<and>
         (wh = Some True \<longrightarrow> hash r = Some (toHex (value_hash v)))"
  using extractState_fields(3) [OF assms]
  by (cases wh) (simp_all add: truthy_flag_def)

theorem extractState_hash_witness:
  "map_option hash (extractState Some example_transfer (Some False) None None) = Some None \<and>
   map_option hash (extractState Some example_transfer (Some True) None None)
     = Some (Some ''0xabcd'')"
proof -
  obtain r0 :: "string Extracted"
    where r0: "extractState Some example_transfer (Some False) None None = Some r0"
    using extractState_returns [of Some example_transfer "Some False" None None] by auto
  obtain r1 :: "string Extracted"
    where r1: "extractState Some example_transfer (Some True) None None = Some r1"
    using extractState_returns [of Some example_transfer "Some True" None None] by auto
  have "hash r0 = None"
    using extractState_hash [OF r0] by simp
  moreover have "hash r1 = Some ''0xabcd''"
    using extractState_hash [OF r1] by (simp add: example_transfer_def)
  ultimately show ?thesis using r0 r1 by simp
qed

text \<open>
  C6. The params list follows the metadata argument list position by position: the name
  of the i-th descriptor is the string form of the i-th argument name, and its type is
  what \<open>getTypeDef\<close> derives from the string form of the i-th argument type. The values
  list holds the i-th argument value at position i, and every entry is marked valid.
\<close>

theorem extractState_params_values:
  assumes "extractState g v wh ws cn = Some r"
  shows "length (params r) = length (meta_args (value_meta v)) \<and>
         (\<forall>i<length (meta_args (value_meta v)).
            param_name (params r ! i) = toString (arg_name (meta_args (value_meta v) ! i)) \<and>
            g (toString (arg_type (meta_args (value_meta v) ! i)))
              = Some (param_type (params r ! i))) \<and>
         length (vals r) = length (value_args v) \<and>
         (\<forall>i<length (value_args v).
            codec_value (vals r ! i) = value_args v ! i \<and> isValid (vals r ! i))"
proof -
  let ?as = "meta_args (value_meta v)"
  have ps: "map_throwing (toParam g) ?as = Some (params r)"
    by (rule extractState_fields(1) [OF assms])
  have len: "length (params r) = length ?as"
    by (rule map_throwing_nth(1) [OF ps])
  have nth: "param_name (params r ! i) = toString (arg_name (?as ! i)) \<and>
             g (toString (arg_type (?as ! i))) = Some (param_type (params r ! i))"
    if "i < length ?as" for i
    by (rule toParam_Some [OF map_throwing_nth(2) [OF ps that]])
  have vs: "vals r = map toValue (value_args v)"
    by (rule extractState_fields(2) [OF assms])
  show ?thesis using len nth vs by (simp add: toValue_def)
qed

theorem extractState_params_values_witness:
  "map_option (\<lambda>r. (params r, vals r)) (extractState Some example_transfer None None None)
     = Some ([\<lparr>param_name = ''dest'', param_type = ''MultiAddress''\<rparr>,
              \<lparr>param_name = ''value'', param_type = ''Compact<u128>''\<rparr>],
             [\<lparr>isValid = True, codec_value = \<lparr>toHex = ''0x00d4'', toString = ''5Grw''\<rparr>\<rparr>,
              \<lparr>isValid = True, codec_value = \<lparr>toHex = ''0x0284'', toString = ''100''\<rparr>\<rparr>])"
proof -
  obtain r :: "string Extracted"
    where r: "extractState Some example_transfer None None None = Some r"
    using extractState_returns [of Some example_transfer None None None] by auto
  note t = extractState_params_values [OF r]
  have as: "meta_args (value_meta example_transfer) =
      [\<lparr>arg_name = text_codec ''dest'', arg_type = text_codec ''MultiAddress''\<rparr>,
       \<lparr>arg_name = text_codec ''value'', arg_type = text_codec ''Compact<u128>''\<rparr>]"
    and vs: "value_args example_transfer =
      [\<lparr>toHex = ''0x00d4'', toString = ''5Grw''\<rparr>, \<lparr>toHex = ''0x0284'', toString = ''100''\<rparr>]"
    by (simp_all add: example_transfer_def)
  from t as have lp: "length (params r) = 2" by simp
  from t as have p0: "params r ! 0 = \<lparr>param_name = ''dest'', param_type = ''MultiAddress''\<rparr>"
    by (auto simp: text_codec_def)
  from t as have p1: "params r ! 1 = \<lparr>param_name = ''value'', param_type = ''Compact<u128>''\<rparr>"
    by (auto simp: text_codec_def)
  from t vs have lv: "length (vals r) = 2" by simp
  from t vs have v0: "vals r ! 0 = \<lparr>isValid = True, codec_value = \<lparr>toHex = ''0x00d4'', toString = ''5Grw''\<rparr>\<rparr>"
    by auto
  from t vs have v1: "vals r ! 1 = \<lparr>isValid = True, codec_value = \<lparr>toHex = ''0x0284'', toString = ''100''\<rparr>\<rparr>"
    by auto
  have "params r = [params r ! 0, params r ! 1]"
    by (rule list_of_length_2 [OF lp])
  moreover have "vals r = [vals r ! 0, vals r ! 1]"
    by (rule list_of_length_2 [OF lv])
  ultimately show ?thesis using r p0 p1 v0 v1 by simp
qed

text \<open>
  C3, as the code has it. For a member sequence that is present and empty, the view hands
  the table the localized message \<open>No members found\<close> and zero rows. For an absent
  sequence it hands the table neither a message nor rows. The message is handed to the
  table exactly when the sequence is present, empty or not.
\<close>

theorem Members_empty_message:
  "(members = Some [] \<longrightarrow>
      table_empty (Members t h cls members) = Some (t ''No members found'' []) \<and>
      table_children (Members t h cls members) = Some []) \<and>
   (members = None \<longrightarrow>
      table_empty (Members t h cls members) = None \<and>
      table_children (Members t h cls members) = None) \<and>
   (table_empty (Members t h cls members) = Some (t ''No members found'' [])
      \<longleftrightarrow> members \<noteq> None)"
  by (cases members) (simp_all add: Members_def)

theorem Members_empty_message_witness:
  "table_empty (Members t_key (headerRef_init t_key) None (Some ([] :: nat Member list)))
     = Some ''No members found'' \<and>
   table_children (Members t_key (headerRef_init t_key) None (Some ([] :: nat Member list)))
     = Some [] \<and>
   table_empty (Members t_key (headerRef_init t_key) None (None :: nat Member list option))
     = None \<and>
   table_children (Members t_key (headerRef_init t_key) None (None :: nat Member list option))
     = None"
  using Members_empty_message
      [of "Some ([] :: nat Member list)" t_key "headerRef_init t_key" None]
    Members_empty_message
      [of "None :: nat Member list option" t_key "headerRef_init t_key" None]
  by (simp add: t_key_def)

text \<open>
  The sentence of the specification behind C3 reads the message as shown for an absent
  sequence too, and only for an absent or empty one. Both fail: an absent sequence gets no
  message, and a sequence of three members gets one.
\<close>

theorem Members_empty_message_counterexample:
  "table_empty (Members t_key (headerRef_init t_key) None (None :: nat Member list option))
     \<noteq> Some (t_key ''No members found'' []) \<and>
   table_empty (Members t_key (headerRef_init t_key) None (Some example_members))
     = Some (t_key ''No members found'' []) \<and>
   example_members \<noteq> []"
  by (simp add: Members_def example_members_def)

text \<open>
  C7. For N member records with distinct account identifiers, the view renders exactly N
  rows in the order of the input, the key of each row is the account identifier of its
  member, and the keys are distinct.
\<close>

theorem Members_rows:
  assumes "distinct (map accountId ms)"
  shows "\<exists>rows. table_children (Members t h cls (Some ms)) = Some rows \<and>
           length rows = length ms \<and>
           (\<forall>i<length ms. key (rows ! i) = accountId (ms ! i) \<and> member_value (rows ! i) = ms ! i) \<and>
           distinct (map key rows)"
proof (intro exI conjI)
  show "table_children (Members t h cls (Some ms)) = Some (map toMemberElement ms)"
    by (simp add: Members_def)
  show "length (map toMemberElement ms) = length ms"
    by simp
  show "\<forall>i<length ms. key (map toMemberElement ms ! i) = accountId (ms ! i) \<and>
          member_value (map toMemberElement ms ! i) = ms ! i"
    by (simp add: toMemberElement_def)
  have "map key (map toMemberElement ms) = map accountId ms"
    by (simp add: toMemberElement_def)
  with assms show "distinct (map key (map toMemberElement ms))"
    by (simp only:)
qed

theorem Members_rows_witness:
  "distinct (map accountId example_members) \<and>
   map_option (map key) (table_children (Members t_key (headerRef_init t_key) None (Some example_members)))
     = Some [''5Grw'', ''5FHn'', ''5DAA'']"
proof -
  have d: "distinct (map accountId example_members)"
    by (simp add: example_members_def)
  from Members_rows [OF d, of t_key "headerRef_init t_key" None]
  obtain rows where rows:
    "table_children (Members t_key (headerRef_init t_key) None (Some example_members)) = Some rows"
    "length rows = length example_members"
    "\<forall>i<length example_members. key (rows ! i) = accountId (example_members ! i)
        \<and> member_value (rows ! i) = example_members ! i"
    by blast
  have len: "length (map key rows) = 3"
    using rows(2) by (simp add: example_members_def)
  have "map key rows ! 0 = ''5Grw''" "map key rows ! 1 = ''5FHn''" "map key rows ! 2 = ''5DAA''"
    using rows(2,3) by (simp_all add: example_members_def)
  with list_of_length_3 [OF len] have "map key rows = [''5Grw'', ''5FHn'', ''5DAA'']"
    by simp
  then show ?thesis using d rows(1) by simp
qed

text \<open>
  C8. The tip row is suppressed when the tip is absent or zero. Among the read-only rows
  there is a row of class \<open>tip\<close> exactly when the tip is strictly positive, and it then
  shows the tip through the balance formatter.
\<close>

theorem Call_tip_row:
  "((tip p = None \<or> tip p = Some 0) \<longrightarrow>
      (\<forall>row\<in>set (toplevel (Call t p st)). static_className row \<noteq> ''tip'')) \<and>
   ((\<exists>row\<in>set (toplevel (Call t p st)). static_className row = ''tip'')
      \<longleftrightarrow> (\<exists>n. tip p = Some n \<and> 0 < n)) \<and>
   (\<forall>n. tip p = Some n \<and> 0 < n \<longrightarrow>
      filter (\<lambda>row. static_className row = ''tip'') (toplevel (Call t p st)) =
        [\<lparr>static_className = ''tip'', static_label = NText (t ''tip'' []),
          static_value = FormatBalance n, withCopy = False\<rparr>])"
proof -
  let ?tips = "filter (\<lambda>row. static_className row = ''tip'') (toplevel (Call t p st))"
  have rows: "?tips = tip_row t p"
    by (rule toplevel_tip_rows)
  have ex: "(\<exists>row\<in>set (toplevel (Call t p st)). static_className row = ''tip'')
              \<longleftrightarrow> ?tips \<noteq> []"
    by (simp add: filter_empty_conv)
  have a: "\<forall>row\<in>set (toplevel (Call t p st)). static_className row \<noteq> ''tip''"
    if "tip p = None \<or> tip p = Some 0"
  proof -
    from that have "tip_row t p = []"
      by (auto simp: tip_row_suppressed)
    with rows ex show ?thesis by simp
  qed
  have b: "(\<exists>row\<in>set (toplevel (Call t p st)). static_className row = ''tip'')
             \<longleftrightarrow> (\<exists>n. tip p = Some n \<and> 0 < n)"
    using ex rows tip_row_suppressed [of t p] by simp
  have c: "?tips = [\<lparr>static_className = ''tip'', static_label = NText (t ''tip'' []),
                     static_value = FormatBalance n, withCopy = False\<rparr>]"
    if "tip p = Some n \<and> 0 < n" for n
    using that rows tip_row_positive [of p n t] by simp
  from a b c show ?thesis by blast
qed

theorem Call_tip_row_witness:
  "filter (\<lambda>row. static_className row = ''tip'')
     (toplevel (Call t_key example_props_cosmetic (Call_initial :: string Extracted))) =
     [\<lparr>static_className = ''tip'', static_label = NText ''tip'',
       static_value = FormatBalance 5, withCopy = False\<rparr>] \<and>
   filter (\<lambda>row. static_className row = ''tip'')
     (toplevel (Call t_key example_props (Call_initial :: string Extracted))) = [] \<and>
   filter (\<lambda>row. static_className row = ''tip'')
     (toplevel (Call t_key (example_props\<lparr>tip := Some 0\<rparr>) (Call_initial :: string Extracted))) = []"
proof -
  have t5: "tip example_props_cosmetic = Some 5 \<and> (0::int) < 5"
    by (simp add: example_props_cosmetic_def)
  have t0: "tip example_props = None \<or> tip example_props = Some 0"
    by (simp add: example_props_def)
  have t00: "tip (example_props\<lparr>tip := Some 0\<rparr>) = None \<or> tip (example_props\<lparr>tip := Some 0\<rparr>) = Some 0"
    by simp
  note a = Call_tip_row [of example_props_cosmetic t_key "Call_initial :: string Extracted"]
  note b = Call_tip_row [of example_props t_key "Call_initial :: string Extracted"]
  note c = Call_tip_row [of "example_props\<lparr>tip := Some 0\<rparr>" t_key "Call_initial :: string Extracted"]
  have "filter (\<lambda>row. static_className row = ''tip'')
     (toplevel (Call t_key example_props_cosmetic (Call_initial :: string Extracted))) =
     [\<lparr>static_className = ''tip'', static_label = NText ''tip'',
       static_value = FormatBalance 5, withCopy = False\<rparr>]"
    using a t5 by (simp add: t_key_def)
  moreover have "filter (\<lambda>row. static_className row = ''tip'')
     (toplevel (Call t_key example_props (Call_initial :: string Extracted))) = []"
    using b t0 by (simp add: filter_empty_conv)
  moreover have "filter (\<lambda>row. static_className row = ''tip'')
     (toplevel (Call t_key (example_props\<lparr>tip := Some 0\<rparr>) (Call_initial :: string Extracted))) = []"
    using c t00 by (simp add: filter_empty_conv)
  ultimately show ?thesis by simp
qed

text \<open>
  C9. Two sets of props that agree on the call name, the value, \<open>withHash\<close> and
  \<open>withSignature\<close> give the same derived structure (and the same dependency array),
  however they differ in \<open>labelHash\<close>, \<open>labelSignature\<close>, \<open>mortality\<close> and \<open>tip\<close>.
\<close>

theorem Call_effect_cosmetic:
  assumes "callName p = callName q" and "prop_value p = prop_value q"
    and "withHash p = withHash q" and "withSignature p = withSignature q"
  shows "Call_effect g p = Call_effect g q \<and> Call_deps p = Call_deps q"
  using assms by (simp add: Call_effect_def Call_deps_def)

theorem Call_effect_cosmetic_witness:
  "callName example_props = callName example_props_cosmetic \<and>
   prop_value example_props = prop_value example_props_cosmetic \<and>
   withHash example_props = withHash example_props_cosmetic \<and>
   withSignature example_props = withSignature example_props_cosmetic \<and>
   labelHash example_props \<noteq> labelHash example_props_cosmetic \<and>
   labelSignature example_props \<noteq> labelSignature example_props_cosmetic \<and>
   mortality example_props \<noteq> mortality example_props_cosmetic \<and>
   tip example_props \<noteq> tip example_props_cosmetic \<and>
   Call_effect Some example_props = Call_effect Some example_props_cosmetic \<and>
   Call_deps example_props = Call_deps example_props_cosmetic \<and>
   Call_effect Some example_props \<noteq> None"
proof -
  have h: "callName example_props = callName example_props_cosmetic"
    "prop_value example_props = prop_value example_props_cosmetic"
    "withHash example_props = withHash example_props_cosmetic"
    "withSignature example_props = withSignature example_props_cosmetic"
    by (simp_all add: example_props_cosmetic_def)
  have d: "labelHash example_props \<noteq> labelHash example_props_cosmetic"
    "labelSignature example_props \<noteq> labelSignature example_props_cosmetic"
    "mortality example_props \<noteq> mortality example_props_cosmetic"
    "tip example_props \<noteq> tip example_props_cosmetic"
    by (simp_all add: example_props_cosmetic_def example_props_def)
  have r: "Call_effect Some example_props \<noteq> None"
    using extractState_returns [of Some "prop_value example_props" "withHash example_props"
        "withSignature example_props" "callName example_props"]
    by (auto simp: Call_effect_def)
  show ?thesis
    using Call_effect_cosmetic [OF h, of Some] h d r by simp
qed

text \<open>
  C10. Whether the override map is present is decided by the call name alone, through its
  membership of the allow-list: the map is the constant \<open>BALANCE_OVERRIDE\<close> for every name
  of the allow-list, also when the call declares no \<open>Compact<u128>\<close> argument, and it is
  absent for an absent name and for every name outside the allow-list. Two extractions
  with the same call name return the same override map whatever the values, flags and type
  parser are. The map is never anything but absent or that constant, and the constant has
  the single entry \<open>Compact<u128>\<close>, the balance widget.
\<close>

theorem extractState_overrides_only_callName:
  assumes "extractState g v wh ws cn = Some r"
    and "extractState g' v' wh' ws' cn = Some r'"
  shows "overrides r = overrides r' \<and>
         (overrides r = None \<or> overrides r = Some BALANCE_OVERRIDE) \<and>
         ((\<exists>n. cn = Some n \<and> List.member BALANCE_CALLS n)
            \<longrightarrow> overrides r = Some BALANCE_OVERRIDE) \<and>
         ((cn = None \<or> (\<exists>n. cn = Some n \<and> \<not> List.member BALANCE_CALLS n))
            \<longrightarrow> overrides r = None) \<and>
         BALANCE_OVERRIDE ''Compact<u128>'' = Some BalanceParam \<and>
         dom BALANCE_OVERRIDE = {''Compact<u128>''}"
proof -
  let ?ov = "case cn of None \<Rightarrow> None
             | Some n \<Rightarrow> if List.member BALANCE_CALLS n then Some BALANCE_OVERRIDE else None"
  have r: "overrides r = ?ov"
    by (rule extractState_fields(4) [OF assms(1)])
  have r': "overrides r' = ?ov"
    by (rule extractState_fields(4) [OF assms(2)])
  have same: "overrides r = overrides r'"
    using r r' by simp
  have two: "overrides r = None \<or> overrides r = Some BALANCE_OVERRIDE"
    unfolding r by (simp split: option.splits)
  have listed: "(\<exists>n. cn = Some n \<and> List.member BALANCE_CALLS n)
                  \<longrightarrow> overrides r = Some BALANCE_OVERRIDE"
    unfolding r by auto
  have unlisted: "(cn = None \<or> (\<exists>n. cn = Some n \<and> \<not> List.member BALANCE_CALLS n))
                    \<longrightarrow> overrides r = None"
    unfolding r by auto
  from same two listed unlisted BALANCE_OVERRIDE_entry BALANCE_OVERRIDE_dom show ?thesis
    by (intro conjI)
qed

theorem extractState_overrides_only_callName_witness:
  "(\<exists>a\<in>set (meta_args (value_meta example_remark)). toString (arg_type a) = ''Compact<u128>'')
     = False \<and>
   map_option overrides
     (extractState Some example_remark None None (Some ''balances.transfer''))
     = Some (Some BALANCE_OVERRIDE) \<and>
   map_option overrides
     (extractState Some example_transfer (Some True) (Some True) (Some ''balances.transfer''))
     = Some (Some BALANCE_OVERRIDE) \<and>
   (\<exists>a\<in>set (meta_args (value_meta example_transfer)). toString (arg_type a) = ''Compact<u128>'')
     = True \<and>
   map_option overrides
     (extractState Some example_transfer None None (Some ''system.remark'')) = Some None \<and>
   map_option overrides (extractState Some example_transfer None None None) = Some None"
proof -
  let ?n = "''balances.transfer''"
  let ?u = "''system.remark''"
  obtain r :: "string Extracted"
    where r: "extractState Some example_remark None None (Some ?n) = Some r"
    using extractState_returns [of Some example_remark None None "Some ?n"] by auto
  obtain r' :: "string Extracted"
    where r': "extractState Some example_transfer (Some True) (Some True) (Some ?n) = Some r'"
    using extractState_returns [of Some example_transfer "Some True" "Some True" "Some ?n"]
    by auto
  obtain ru :: "string Extracted"
    where ru: "extractState Some example_transfer None None (Some ?u) = Some ru"
    using extractState_returns [of Some example_transfer None None "Some ?u"] by auto
  obtain ra :: "string Extracted"
    where ra: "extractState Some example_transfer None None None = Some ra"
    using extractState_returns [of Some example_transfer None None None] by auto
  have m: "List.member BALANCE_CALLS ?n"
    by (simp add: BALANCE_CALLS_def)
  have mu: "\<not> List.member BALANCE_CALLS ?u"
    by (simp add: BALANCE_CALLS_def)
  have c: "(\<exists>a\<in>set (meta_args (value_meta example_remark)).
             toString (arg_type a) = ''Compact<u128>'') = False"
    by (simp add: example_remark_def text_codec_def)
  have ct: "(\<exists>a\<in>set (meta_args (value_meta example_transfer)).
             toString (arg_type a) = ''Compact<u128>'') = True"
    by (simp add: example_transfer_def text_codec_def)
  note t = extractState_overrides_only_callName [OF r r']
  note same = t [THEN conjunct1]
  note listed = t [THEN conjunct2, THEN conjunct2, THEN conjunct1]
  note unlisted_u = extractState_overrides_only_callName
    [OF ru ru, THEN conjunct2, THEN conjunct2, THEN conjunct2, THEN conjunct1]
  note unlisted_a = extractState_overrides_only_callName
    [OF ra ra, THEN conjunct2, THEN conjunct2, THEN conjunct2, THEN conjunct1]
  from listed m have ov: "overrides r = Some BALANCE_OVERRIDE"
    by blast
  with same have ov': "overrides r' = Some BALANCE_OVERRIDE"
    by simp
  from unlisted_u mu have ovu: "overrides ru = None"
    by blast
  from unlisted_a have ova: "overrides ra = None"
    by blast
  have "map_option overrides (extractState Some example_remark None None (Some ?n))
          = Some (Some BALANCE_OVERRIDE)"
    by (simp only: r ov option.map)
  moreover have "map_option overrides
      (extractState Some example_transfer (Some True) (Some True) (Some ?n))
          = Some (Some BALANCE_OVERRIDE)"
    by (simp only: r' ov' option.map)
  moreover have "map_option overrides
      (extractState Some example_transfer None None (Some ?u)) = Some None"
    by (simp only: ru ovu option.map)
  moreover have "map_option overrides (extractState Some example_transfer None None None)
      = Some None"
    by (simp only: ra ova option.map)
  ultimately show ?thesis using c ct by (intro conjI)
qed

end
